theory Spec2Isabelle
  imports Main "HOL-Library.Multiset" "HOL-Library.Option_ord" "HOL-Library.Sublist"
begin

section \<open>The registration, blog and event server\<close>

text \<open>
  The repository is an Express server in two near-identical entry points:
  \<^verbatim>\<open>src/index.js\<close> (every handler wrapped in try/catch, with the Event resource) and
  \<^verbatim>\<open>src/unnamed/part_000\<close> (no try/catch around the blog handlers, with the paginated
  listing and the title search). The handlers are embedded as functions from a request
  and the state of the server (three MongoDB collections and the files on disk) to an
  HTTP response and the new state.

  What the embedding assumes about the libraries: MongoDB keeps a collection in insertion
  order, \<^verbatim>\<open>_id\<close> values are unique and an insert of a taken \<^verbatim>\<open>_id\<close> is rejected; Mongoose
  rejects an id it cannot cast to an ObjectId with a CastError; multer has written the
  attached file to disk before the handler runs; axios rejects a reply whose status is
  outside 200..299 (its default \<^verbatim>\<open>validateStatus\<close>). The database is reachable and the disk
  has no permission failures. The timestamps Mongoose maintains on a blog post
  (\<^verbatim>\<open>createdAt\<close>, \<^verbatim>\<open>updatedAt\<close>) are left out.
\<close>

subsection \<open>Documents and the state of the server\<close>

type_synonym oid = nat

text \<open>\<^verbatim>\<open>req.params.id\<close> as Mongoose sees it: a string it casts to an ObjectId, or one it
  cannot cast (such as \<^verbatim>\<open>xyz\<close>).\<close>

datatype id_param = Castable oid | Uncastable

text \<open>\<^verbatim>\<open>RegSchema\<close>: five optional strings and \<^verbatim>\<open>check\<close>, a boolean.\<close>

record registration =
  name :: "string option"
  email :: "string option"
  location :: "string option"
  church :: "string option"
  phone :: "string option"
  check :: bool

text \<open>\<^verbatim>\<open>blogSchema\<close>. A field that was never set is \<open>None\<close> (\<^verbatim>\<open>undefined\<close>).\<close>

record blog =
  blog_title :: "string option"
  blog_content :: "string option"
  blog_image :: "string option"

text \<open>\<^verbatim>\<open>eventSchema\<close>. The date is in milliseconds since the epoch.\<close>

record event =
  event_title :: "string option"
  event_date :: "int option"
  event_time :: "string option"
  event_image :: "string option"

type_synonym 'd collection = "(oid \<times> 'd) list"

record state =
  users :: "registration collection"
  blogs :: "blog collection"
  events :: "event collection"
  files :: "string set"

datatype failure = CastError | DuplicateKey | ValidationError | ENOENT | SkipNegative
  | AxiosError "nat option"

datatype body =
    NoBody
  | Message string
  | MessageWithError string failure
  | ErrorOnly string
  | MessageWithUser string "oid \<times> registration"
  | MessageWithData string string
  | BlogJson "oid \<times> blog"
  | BlogsJson "(oid \<times> blog) list"
  | BlogsObject "(oid \<times> blog) list"
  | BlogsWithTotal "(oid \<times> blog) list" nat
  | EventJson "oid \<times> event"
  | EventsJson "(oid \<times> event) list"
  | UsersJson "(oid \<times> registration) list"
  | FileBody string
  | ErrorPage

text \<open>A handler answers with a status and a body, or (in \<^verbatim>\<open>part_000\<close>, where an async
  handler has no try/catch) throws and sends nothing.\<close>

datatype response = Response nat body | Unhandled failure

subsection \<open>JavaScript values\<close>

text \<open>Truthiness of a value that is a string or \<^verbatim>\<open>undefined\<close>; \<^verbatim>\<open>a || b\<close>.\<close>

fun truthy :: "string option \<Rightarrow> bool" where
  "truthy None = False"
| "truthy (Some v) = (v \<noteq> [])"

definition js_or :: "string option \<Rightarrow> string option \<Rightarrow> string option" where
  "js_or a b = (if truthy a then a else b)"

subsection \<open>The collections\<close>

fun update_first :: "oid \<Rightarrow> ('d \<Rightarrow> 'd) \<Rightarrow> 'd collection \<Rightarrow> 'd collection" where
  "update_first i f [] = []"
| "update_first i f ((j, d) # ds) =
     (if j = i then (j, f d) # ds else (j, d) # update_first i f ds)"

fun delete_first :: "oid \<Rightarrow> 'd collection \<Rightarrow> 'd collection" where
  "delete_first i [] = []"
| "delete_first i ((j, d) # ds) = (if j = i then ds else (j, d) # delete_first i ds)"

text \<open>\<^verbatim>\<open>new Model(fields).save()\<close>, the ObjectId that the driver generated given as \<open>i\<close>.\<close>

definition save_new :: "oid \<Rightarrow> 'd \<Rightarrow> 'd collection \<Rightarrow> failure + 'd collection" where
  "save_new i d c = (if map_of c i \<noteq> None then Inl DuplicateKey else Inr (c @ [(i, d)]))"

text \<open>\<^verbatim>\<open>findById(id)\<close>: the document with its \<^verbatim>\<open>_id\<close>, or null.\<close>

fun findById :: "id_param \<Rightarrow> 'd collection \<Rightarrow> failure + (oid \<times> 'd) option" where
  "findById Uncastable c = Inl CastError"
| "findById (Castable i) c = Inr (map_option (Pair i) (map_of c i))"

text \<open>\<^verbatim>\<open>findByIdAndUpdate(id, update, { new: true })\<close>: the updated document, or null.\<close>

fun findByIdAndUpdate ::
  "id_param \<Rightarrow> ('d \<Rightarrow> 'd) \<Rightarrow> 'd collection \<Rightarrow> failure + ((oid \<times> 'd) option \<times> 'd collection)" where
  "findByIdAndUpdate Uncastable f c = Inl CastError"
| "findByIdAndUpdate (Castable i) f c =
     Inr (map_option (\<lambda>d. (i, f d)) (map_of c i), update_first i f c)"

fun findByIdAndDelete :: "id_param \<Rightarrow> 'd collection \<Rightarrow> failure + 'd collection" where
  "findByIdAndDelete Uncastable c = Inl CastError"
| "findByIdAndDelete (Castable i) c = Inr (delete_first i c)"

text \<open>\<^verbatim>\<open>doc.save()\<close> on a document that was read from the collection.\<close>

definition save_existing :: "oid \<Rightarrow> 'd \<Rightarrow> 'd collection \<Rightarrow> 'd collection" where
  "save_existing i d c = update_first i (\<lambda>_. d) c"

subsection \<open>The disk and multer\<close>

definition existsSync :: "string \<Rightarrow> string set \<Rightarrow> bool" where
  "existsSync p fs = (p \<in> fs)"

definition unlinkSync :: "string \<Rightarrow> string set \<Rightarrow> failure + string set" where
  "unlinkSync p fs = (if p \<in> fs then Inr (fs - {p}) else Inl ENOENT)"

text \<open>The guarded removal that the delete and update handlers share:
  \<^verbatim>\<open>if (doc.image && fs.existsSync(doc.image)) { fs.unlinkSync(doc.image); }\<close>\<close>

definition remove_image :: "string option \<Rightarrow> string set \<Rightarrow> failure + string set" where
  "remove_image img fs =
     (case img of
        None \<Rightarrow> Inr fs
      | Some p \<Rightarrow> if truthy (Some p) \<and> existsSync p fs then unlinkSync p fs else Inr fs)"

text \<open>An attached file: the value of \<^verbatim>\<open>Date.now()\<close> when multer names it, and
  \<^verbatim>\<open>path.extname(file.originalname)\<close>.\<close>

record upload =
  uploaded_at :: nat
  extname :: string

fun decimal :: "nat \<Rightarrow> string" where
  "decimal n =
     (if n < 10 then [char_of (48 + n)] else decimal (n div 10) @ [char_of (48 + n mod 10)])"

declare decimal.simps [simp del]

definition uploadsDir :: string where
  "uploadsDir = ''uploads''"

text \<open>\<^verbatim>\<open>filename: Date.now() + path.extname(file.originalname)\<close>, and \<^verbatim>\<open>req.file.path\<close>, the
  destination joined with the file name.\<close>

definition filename :: "upload \<Rightarrow> string" where
  "filename f = decimal (uploaded_at f) @ extname f"

definition file_path :: "upload \<Rightarrow> string" where
  "file_path f = uploadsDir @ ''/'' @ filename f"

text \<open>\<^verbatim>\<open>upload.single('image')\<close>: the middleware writes the attached file before the handler
  runs.\<close>

definition upload_single :: "upload option \<Rightarrow> state \<Rightarrow> state" where
  "upload_single file s =
     (case file of None \<Rightarrow> s | Some f \<Rightarrow> s\<lparr>files := insert (file_path f) (files s)\<rparr>)"

subsection \<open>Registration check-in\<close>

text \<open>\<^verbatim>\<open>app.patch('/api/register/:id', ...)\<close>, the same in both files. The handler never reads
  \<^verbatim>\<open>req.body\<close>; the model takes it so that this can be stated.\<close>

definition register_patch :: "id_param \<Rightarrow> 'b \<Rightarrow> state \<Rightarrow> response \<times> state" where
  "register_patch idp body s =
     (case findByIdAndUpdate idp (\<lambda>u. u\<lparr>check := True\<rparr>) (users s) of
        Inl err \<Rightarrow> (Response 400 (MessageWithError ''Error updating user'' err), s)
      | Inr (None, us) \<Rightarrow> (Response 404 (Message ''User not found''), s)
      | Inr (Some updatedUser, us) \<Rightarrow>
          (Response 200 (MessageWithUser ''User checked in successfully'' updatedUser),
           s\<lparr>users := us\<rparr>))"

subsection \<open>Blog posts (\<^verbatim>\<open>src/index.js\<close>)\<close>

text \<open>The multipart form of a create or update request.\<close>

record blog_form =
  form_title :: "string option"
  form_content :: "string option"
  form_file :: "upload option"

text \<open>\<^verbatim>\<open>app.post('/api/blogs', upload.single('image'), ...)\<close>\<close>

definition blogs_post :: "oid \<Rightarrow> blog_form \<Rightarrow> state \<Rightarrow> response \<times> state" where
  "blogs_post new_id req s0 =
     (let s = upload_single (form_file req) s0;
          image = (case form_file req of Some f \<Rightarrow> file_path f | None \<Rightarrow> []);
          newBlog = \<lparr>blog_title = form_title req, blog_content = form_content req,
                     blog_image = Some image\<rparr>
      in case save_new new_id newBlog (blogs s) of
           Inl err \<Rightarrow> (Response 400 (MessageWithError ''Error creating blog post'' err), s)
         | Inr bs \<Rightarrow> (Response 201 (BlogJson (new_id, newBlog)), s\<lparr>blogs := bs\<rparr>))"

text \<open>\<^verbatim>\<open>app.delete('/api/blogs/:id', ...)\<close>\<close>

definition blogs_delete :: "id_param \<Rightarrow> state \<Rightarrow> response \<times> state" where
  "blogs_delete idp s =
     (case findById idp (blogs s) of
        Inl err \<Rightarrow> (Response 500 (MessageWithError ''Error deleting blog'' err), s)
      | Inr None \<Rightarrow> (Response 404 (ErrorOnly ''Blog not found''), s)
      | Inr (Some (i, blog)) \<Rightarrow>
          (case remove_image (blog_image blog) (files s) of
             Inl err \<Rightarrow> (Response 500 (MessageWithError ''Error deleting blog'' err), s)
           | Inr fs \<Rightarrow>
               (case findByIdAndDelete idp (blogs s) of
                  Inl err \<Rightarrow>
                    (Response 500 (MessageWithError ''Error deleting blog'' err), s\<lparr>files := fs\<rparr>)
                | Inr bs \<Rightarrow> (Response 204 NoBody, s\<lparr>blogs := bs, files := fs\<rparr>))))"

text \<open>\<^verbatim>\<open>app.put('/api/blogs/:id', upload.single('image'), ...)\<close>\<close>

definition blogs_put :: "id_param \<Rightarrow> blog_form \<Rightarrow> state \<Rightarrow> response \<times> state" where
  "blogs_put idp req s0 =
     (let s = upload_single (form_file req) s0 in
      case findById idp (blogs s) of
        Inl err \<Rightarrow> (Response 500 (MessageWithError ''Error updating blog'' err), s)
      | Inr None \<Rightarrow> (Response 404 (ErrorOnly ''Blog not found''), s)
      | Inr (Some (i, blog)) \<Rightarrow>
          (case (case form_file req of
                   None \<Rightarrow> Inr (blog, files s)
                 | Some f \<Rightarrow>
                     (case remove_image (blog_image blog) (files s) of
                        Inl err \<Rightarrow> Inl err
                      | Inr fs \<Rightarrow> Inr (blog\<lparr>blog_image := Some (file_path f)\<rparr>, fs))) of
             Inl err \<Rightarrow> (Response 500 (MessageWithError ''Error updating blog'' err), s)
           | Inr (blog1, fs) \<Rightarrow>
               (let blog2 = blog1\<lparr>blog_title := js_or (form_title req) (blog_title blog1)\<rparr>;
                    blog3 = blog2\<lparr>blog_content := js_or (form_content req) (blog_content blog2)\<rparr>
                in (Response 200 (BlogJson (i, blog3)),
                    s\<lparr>blogs := save_existing i blog3 (blogs s), files := fs\<rparr>))))"

subsection \<open>Events (\<^verbatim>\<open>src/index.js\<close>)\<close>

text \<open>\<^verbatim>\<open>req.body.date\<close> as Mongoose casts it: left out, a string that is no date (the save is
  rejected), or a date.\<close>

datatype date_field = NoDate | BadDate | DateAt int

record event_form =
  eform_title :: "string option"
  eform_date :: date_field
  eform_time :: "string option"
  eform_file :: "upload option"

text \<open>\<^verbatim>\<open>app.post('/api/events', upload.single('image'), ...)\<close>\<close>

definition events_post :: "oid \<Rightarrow> event_form \<Rightarrow> state \<Rightarrow> response \<times> state" where
  "events_post new_id req s0 =
     (let s = upload_single (eform_file req) s0;
          image = (case eform_file req of Some f \<Rightarrow> file_path f | None \<Rightarrow> [])
      in case eform_date req of
           BadDate \<Rightarrow> (Response 400 (MessageWithError ''Error creating event'' ValidationError), s)
         | d \<Rightarrow>
             (let newEvent = \<lparr>event_title = eform_title req,
                               event_date = (case d of DateAt t \<Rightarrow> Some t | _ \<Rightarrow> None),
                               event_time = eform_time req, event_image = Some image\<rparr>
              in case save_new new_id newEvent (events s) of
                   Inl err \<Rightarrow> (Response 400 (MessageWithError ''Error creating event'' err), s)
                 | Inr es \<Rightarrow> (Response 201 (EventJson (new_id, newEvent)), s\<lparr>events := es\<rparr>)))"

text \<open>\<^verbatim>\<open>Event.find({ date: { $gte: new Date() } }).sort({ date: 1 })\<close>: an event without a date
  does not match \<^verbatim>\<open>$gte\<close>.\<close>

definition date_gte :: "int \<Rightarrow> oid \<times> event \<Rightarrow> bool" where
  "date_gte now e = (case event_date (snd e) of None \<Rightarrow> False | Some d \<Rightarrow> now \<le> d)"

text \<open>\<^verbatim>\<open>app.get('/api/events', ...)\<close>, with \<open>now\<close> the value of \<^verbatim>\<open>new Date()\<close>.\<close>

definition events_get :: "int \<Rightarrow> state \<Rightarrow> response \<times> state" where
  "events_get now s =
     (Response 200 (EventsJson (sort_key (\<lambda>e. event_date (snd e)) (filter (date_gte now) (events s)))),
      s)"

text \<open>\<^verbatim>\<open>app.delete('/api/events/:id', ...)\<close>\<close>

definition events_delete :: "id_param \<Rightarrow> state \<Rightarrow> response \<times> state" where
  "events_delete idp s =
     (case findById idp (events s) of
        Inl err \<Rightarrow> (Response 500 (MessageWithError ''Error deleting event'' err), s)
      | Inr None \<Rightarrow> (Response 404 (ErrorOnly ''Event not found''), s)
      | Inr (Some (i, event)) \<Rightarrow>
          (case remove_image (event_image event) (files s) of
             Inl err \<Rightarrow> (Response 500 (MessageWithError ''Error deleting event'' err), s)
           | Inr fs \<Rightarrow>
               (case findByIdAndDelete idp (events s) of
                  Inl err \<Rightarrow>
                    (Response 500 (MessageWithError ''Error deleting event'' err), s\<lparr>files := fs\<rparr>)
                | Inr es \<Rightarrow> (Response 204 NoBody, s\<lparr>events := es, files := fs\<rparr>))))"

subsection \<open>The Mailchimp subscription\<close>

text \<open>What the provider does with the request: it replies with a status and a payload
  and no redirect to follow; or it replies with a 3xx status and a \<^verbatim>\<open>Location\<close>, where the
  request is answered in turn; or the request never gets an answer.\<close>

datatype provider = Replied nat string | Redirected provider | Unreachable

text \<open>\<^verbatim>\<open>axios.post(url, data, { headers })\<close>: neither \<^verbatim>\<open>maxRedirects\<close> nor \<^verbatim>\<open>validateStatus\<close>
  is configured, so axios follows up to 5 redirects, then resolves on a status in 200..299
  and rejects on every other.\<close>

fun axios_follow :: "nat \<Rightarrow> provider \<Rightarrow> failure + nat \<times> string" where
  "axios_follow n (Replied status payload) =
     (if 200 \<le> status \<and> status < 300 then Inr (status, payload)
      else Inl (AxiosError (Some status)))"
| "axios_follow 0 (Redirected p) = Inl (AxiosError None)"
| "axios_follow (Suc n) (Redirected p) = axios_follow n p"
| "axios_follow n Unreachable = Inl (AxiosError None)"

definition axios_post :: "provider \<Rightarrow> failure + nat \<times> string" where
  "axios_post p = axios_follow 5 p"

text \<open>\<^verbatim>\<open>app.post('/api/subscribe', ...)\<close>, the same in both files up to the provider's URL.\<close>

definition subscribe :: "string option \<Rightarrow> provider \<Rightarrow> response" where
  "subscribe email' mailchimp =
     (if \<not> truthy email' then Response 400 (Message ''Email is required'')
      else case axios_post mailchimp of
             Inr (status, payload) \<Rightarrow>
               if 200 \<le> status \<and> status < 300
               then Response 200 (Message ''Subscription successful'')
               else Response status (MessageWithData ''Error subscribing to Mailchimp'' payload)
           | Inl err \<Rightarrow> Response 500 (MessageWithError ''Error subscribing to Mailchimp'' err))"

subsection \<open>Paginated listing and title search (\<^verbatim>\<open>src/unnamed/part_000\<close>)\<close>

text \<open>
  \<^verbatim>\<open>req.query.page\<close> and \<^verbatim>\<open>req.query.limit\<close> are modelled by the integer that JavaScript's
  numeric coercion gives them (\<open>None\<close> when the parameter is left out and the default
  applies); a parameter that is not an integer is outside the model. MongoDB applies the
  skip before the limit whatever the order of the calls, rejects a negative skip, reads a
  limit of 0 as no limit, and a negative limit as its absolute value.
\<close>

definition mongo_skip :: "int \<Rightarrow> 'd collection \<Rightarrow> failure + 'd collection" where
  "mongo_skip n c = (if n < 0 then Inl SkipNegative else Inr (drop (nat n) c))"

definition mongo_limit :: "int \<Rightarrow> 'd collection \<Rightarrow> 'd collection" where
  "mongo_limit n c = (if n = 0 then c else take (nat \<bar>n\<bar>) c)"

text \<open>The body of the handler of \<^verbatim>\<open>app.get('/api/blogs/main', ...)\<close>. Whether a request
  reaches it is for the dispatch \<open>part_000_get\<close> below to say.\<close>

definition blogs_main :: "int option \<Rightarrow> int option \<Rightarrow> state \<Rightarrow> response" where
  "blogs_main page_param limit_param s =
     (let page = (case page_param of None \<Rightarrow> 1 | Some p \<Rightarrow> p);
          limit = (case limit_param of None \<Rightarrow> 28 | Some l \<Rightarrow> l)
      in case mongo_skip ((page - 1) * limit) (blogs s) of
           Inl err \<Rightarrow> Unhandled err
         | Inr rest \<Rightarrow> Response 200 (BlogsWithTotal (mongo_limit limit rest) (length (blogs s))))"

text \<open>
  The filter \<^verbatim>\<open>{ title: { $regex: searchQuery, $options: 'i' } }\<close> hands the query to
  MongoDB's regular expression engine. The model covers the patterns made of ordinary
  characters and the dot: an ordinary character matches itself in either case (ASCII
  letters), a dot matches any character of a title without line breaks, and the pattern
  may match anywhere in the title. A pattern with another special character, and a
  pattern with a dot against a title with a line break, are outside the model: \<open>None\<close>.
\<close>

definition regex_special :: "char \<Rightarrow> bool" where
  "regex_special c =
     (c \<in> set [CHR 0x5C, CHR ''^'', CHR ''$'', CHR ''.'', CHR ''|'', CHR ''?'', CHR ''*'',
               CHR ''+'', CHR ''('', CHR '')'', CHR ''['', CHR '']'', CHR ''{'', CHR ''}''])"

definition to_lower :: "char \<Rightarrow> char" where
  "to_lower c = (let n = (of_char c :: nat) in if 65 \<le> n \<and> n \<le> 90 then char_of (n + 32) else c)"

definition item_matches :: "char \<Rightarrow> char \<Rightarrow> bool" where
  "item_matches p c = (if p = CHR ''.'' then True else to_lower p = to_lower c)"

fun matches_at :: "string \<Rightarrow> string \<Rightarrow> bool" where
  "matches_at [] cs = True"
| "matches_at (p # ps) [] = False"
| "matches_at (p # ps) (c # cs) = (item_matches p c \<and> matches_at ps cs)"

fun matches_in :: "string \<Rightarrow> string \<Rightarrow> bool" where
  "matches_in ps [] = matches_at ps []"
| "matches_in ps (c # cs) = (matches_at ps (c # cs) \<or> matches_in ps cs)"

definition pattern_modelled :: "string \<Rightarrow> bool" where
  "pattern_modelled p = (\<not> list_ex (\<lambda>c. regex_special c \<and> c \<noteq> CHR ''.'') p)"

definition line_break :: "char \<Rightarrow> bool" where
  "line_break c = (c = CHR 0x0A \<or> c = CHR 0x0D)"

definition regex_i :: "string \<Rightarrow> string \<Rightarrow> bool option" where
  "regex_i p t =
     (if \<not> pattern_modelled p then None
      else if CHR ''.'' \<in> set p \<and> list_ex line_break t then None
      else Some (matches_in p t))"

text \<open>A post without a title never matches.\<close>

definition title_regex :: "string \<Rightarrow> oid \<times> blog \<Rightarrow> bool option" where
  "title_regex q b = (case blog_title (snd b) of None \<Rightarrow> Some False | Some t \<Rightarrow> regex_i q t)"

definition find_title_regex :: "string \<Rightarrow> blog collection \<Rightarrow> blog collection option" where
  "find_title_regex q c =
     (if \<not> pattern_modelled q \<or> list_ex (\<lambda>b. title_regex q b = None) c then None
      else Some (filter (\<lambda>b. title_regex q b = Some True) c))"

text \<open>The body of the handler of \<^verbatim>\<open>app.get('/api/blogs/search', ...)\<close>; again, whether a
  request reaches it is for \<open>part_000_get\<close> to say. The result is \<open>None\<close> where the model
  does not say what the body does: the query is left out, or the pattern is outside the
  model.\<close>

definition blogs_search ::
  "string option \<Rightarrow> int option \<Rightarrow> int option \<Rightarrow> state \<Rightarrow> response option" where
  "blogs_search searchQuery page_param limit_param s =
     (let page = (case page_param of None \<Rightarrow> 1 | Some p \<Rightarrow> p);
          limit = (case limit_param of None \<Rightarrow> 28 | Some l \<Rightarrow> l)
      in case searchQuery of
           None \<Rightarrow> None
         | Some q \<Rightarrow>
             (case find_title_regex q (blogs s) of
                None \<Rightarrow> None
              | Some found \<Rightarrow>
                  Some (case mongo_skip ((page - 1) * limit) found of
                          Inl err \<Rightarrow> Unhandled err
                        | Inr rest \<Rightarrow> Response 200 (BlogsObject (mongo_limit limit rest)))))"

subsection \<open>How \<^verbatim>\<open>src/unnamed/part_000\<close> dispatches a GET request\<close>

text \<open>
  Express runs the middleware and routes in the order of their registration, and the
  first one that answers ends the request. In \<^verbatim>\<open>part_000\<close> that order is: the static
  files of \<^verbatim>\<open>frontend/dist\<close> (line 25), the static files under \<^verbatim>\<open>/uploads\<close> (line 28), the
  catch-all \<^verbatim>\<open>app.get('*', ...)\<close> that sends \<^verbatim>\<open>index.html\<close> (line 30), and only then the API
  routes (lines 78, 180, 186, 198 and 212). The catch-all never calls \<^verbatim>\<open>next()\<close>: it sends
  the file, or the default error handler answers 404 when the file is missing. Paths on
  disk are relative to the directory of the server.
\<close>

record get_request =
  req_path :: string
  query_searchQuery :: "string option"
  query_page :: "int option"
  query_limit :: "int option"
  params_id :: id_param

text \<open>\<^verbatim>\<open>app.use(mount, express.static(root))\<close>: answers when the path under the mount names
  a file, and passes the request on otherwise.\<close>

definition express_static :: "string \<Rightarrow> string \<Rightarrow> get_request \<Rightarrow> state \<Rightarrow> response option" where
  "express_static mount root req s =
     (let file = root @ drop (length mount) (req_path req)
      in if prefix (mount @ ''/'') (req_path req) \<and> existsSync file (files s)
         then Some (Response 200 (FileBody file)) else None)"

definition sendFile :: "string \<Rightarrow> state \<Rightarrow> response" where
  "sendFile file s =
     (if existsSync file (files s) then Response 200 (FileBody file) else Response 404 ErrorPage)"

text \<open>The route path \<^verbatim>\<open>'*'\<close> matches every request path; \<^verbatim>\<open>'/api/blogs/:id'\<close> matches one
  more segment after \<^verbatim>\<open>/api/blogs/\<close>.\<close>

definition matches_star :: "string \<Rightarrow> bool" where
  "matches_star p = True"

definition matches_blogs_id :: "string \<Rightarrow> bool" where
  "matches_blogs_id p =
     (let segment = drop (length ''/api/blogs/'') p
      in prefix ''/api/blogs/'' p \<and> segment \<noteq> [] \<and> CHR ''/'' \<notin> set segment)"

text \<open>The body of the handler of \<^verbatim>\<open>app.get('/api/blogs/:id', ...)\<close> in \<^verbatim>\<open>part_000\<close>, with no
  try/catch.\<close>

definition blogs_get_by_id :: "id_param \<Rightarrow> state \<Rightarrow> response" where
  "blogs_get_by_id idp s =
     (case findById idp (blogs s) of
        Inl err \<Rightarrow> Unhandled err
      | Inr None \<Rightarrow> Response 404 (ErrorOnly ''Blog not found'')
      | Inr (Some blog) \<Rightarrow> Response 200 (BlogJson blog))"

definition part_000_get :: "get_request \<Rightarrow> state \<Rightarrow> response option" where
  "part_000_get req s =
     (case express_static [] ''frontend/dist'' req s of
        Some answer \<Rightarrow> Some answer
      | None \<Rightarrow>
          (case express_static ''/uploads'' ''uploads'' req s of
             Some answer \<Rightarrow> Some answer
           | None \<Rightarrow>
               if matches_star (req_path req)
               then Some (sendFile ''frontend/dist/index.html'' s)
               else if req_path req = ''/api/register''
               then Some (Response 200 (UsersJson (users s)))
               else if req_path req = ''/api/blogs''
               then Some (Response 200 (BlogsJson (blogs s)))
               else if req_path req = ''/api/blogs/main''
               then Some (blogs_main (query_page req) (query_limit req) s)
               else if req_path req = ''/api/blogs/search''
               then blogs_search (query_searchQuery req) (query_page req) (query_limit req) s
               else if matches_blogs_id (req_path req)
               then Some (blogs_get_by_id (params_id req) s)
               else Some (Response 404 ErrorPage)))"

subsection \<open>The search as the specification words it\<close>

text \<open>The title contains the query, case-insensitively; a page of \<open>size\<close> posts after a
  skip of \<open>(page - 1) * size\<close>, the size 28 and the page 1 when left out.\<close>

definition contains_ci :: "string \<Rightarrow> string \<Rightarrow> bool" where
  "contains_ci q t = sublist (map to_lower q) (map to_lower t)"

definition title_contains :: "string \<Rightarrow> oid \<times> blog \<Rightarrow> bool" where
  "title_contains q b = (case blog_title (snd b) of None \<Rightarrow> False | Some t \<Rightarrow> contains_ci q t)"

definition spec_search ::
  "string \<Rightarrow> int option \<Rightarrow> int option \<Rightarrow> blog collection \<Rightarrow> blog collection" where
  "spec_search q page_param limit_param c =
     (let page = (case page_param of None \<Rightarrow> 1 | Some p \<Rightarrow> p);
          size = (case limit_param of None \<Rightarrow> 28 | Some l \<Rightarrow> l)
      in take (nat size) (drop (nat ((page - 1) * size)) (filter (title_contains q) c)))"

subsection \<open>Fixtures\<close>

text \<open>Small states and documents on which the theorems below are instantiated.\<close>

definition no_state :: state where
  "no_state = \<lparr>users = [], blogs = [], events = [], files = {}\<rparr>"

definition ada :: registration where
  "ada = \<lparr>name = Some ''Ada'', email = Some ''ada@example.org'', location = Some ''Lagos'',
          church = None, phone = Some ''0800'', check = False\<rparr>"

definition bob :: registration where
  "bob = \<lparr>name = Some ''Bob'', email = None, location = None, church = Some ''Grace'',
          phone = None, check = False\<rparr>"

definition png17 :: upload where
  "png17 = \<lparr>uploaded_at = 17, extname = ''.png''\<rparr>"

definition hello_form :: blog_form where
  "hello_form = \<lparr>form_title = Some ''Hello'', form_content = Some ''World'',
                 form_file = Some png17\<rparr>"

definition hello_blog :: blog where
  "hello_blog = \<lparr>blog_title = Some ''Hello'', blog_content = Some ''World'',
                 blog_image = Some ''uploads/17.png''\<rparr>"

definition jpg23 :: upload where
  "jpg23 = \<lparr>uploaded_at = 23, extname = ''.jpg''\<rparr>"

definition one_post :: state where
  "one_post = no_state\<lparr>blogs := [(9, hello_blog)], files := {''uploads/17.png''}\<rparr>"

definition gone_event :: event where
  "gone_event = \<lparr>event_title = Some ''Picnic'', event_date = Some 5000, event_time = Some ''10am'',
                 event_image = Some ''uploads/gone.png''\<rparr>"

definition gone_blog :: blog where
  "gone_blog = \<lparr>blog_title = Some ''Old'', blog_content = None,
                blog_image = Some ''uploads/gone.png''\<rparr>"

definition dangling :: state where
  "dangling = no_state\<lparr>blogs := [(9, gone_blog)], events := [(3, gone_event)],
                        files := {''uploads/17.png''}\<rparr>"

definition plain_form :: blog_form where
  "plain_form = \<lparr>form_title = Some ''Notes'', form_content = Some ''Text only'', form_file = None\<rparr>"

definition plain_event_form :: event_form where
  "plain_event_form = \<lparr>eform_title = Some ''Vigil'', eform_date = DateAt 9000,
                        eform_time = Some ''9pm'', eform_file = None\<rparr>"

definition mixed_events :: "event collection" where
  "mixed_events =
     [(1, \<lparr>event_title = Some ''Retreat'', event_date = Some 9000, event_time = None,
            event_image = Some []\<rparr>),
      (2, \<lparr>event_title = Some ''Past'', event_date = Some 100, event_time = None,
            event_image = Some []\<rparr>),
      (3, \<lparr>event_title = Some ''Today'', event_date = Some 5000, event_time = None,
            event_image = Some []\<rparr>),
      (4, \<lparr>event_title = Some ''Undated'', event_date = None, event_time = None,
            event_image = Some []\<rparr>),
      (5, \<lparr>event_title = Some ''Soon'', event_date = Some 7000, event_time = None,
            event_image = Some []\<rparr>)]"

definition six_posts :: "blog collection" where
  "six_posts =
     [(1, \<lparr>blog_title = Some ''Foo one'', blog_content = None, blog_image = Some []\<rparr>),
      (2, \<lparr>blog_title = Some ''a FOO two'', blog_content = None, blog_image = Some []\<rparr>),
      (3, \<lparr>blog_title = Some ''Bar'', blog_content = None, blog_image = Some []\<rparr>),
      (4, \<lparr>blog_title = Some ''food'', blog_content = None, blog_image = Some []\<rparr>),
      (5, \<lparr>blog_title = Some ''tofoo'', blog_content = None, blog_image = Some []\<rparr>),
      (6, \<lparr>blog_title = Some ''fOo five'', blog_content = None, blog_image = Some []\<rparr>)]"

definition abc_post :: "oid \<times> blog" where
  "abc_post = (1, \<lparr>blog_title = Some ''abc'', blog_content = None, blog_image = Some []\<rparr>)"

definition search_request :: get_request where
  "search_request = \<lparr>req_path = ''/api/blogs/search'', query_searchQuery = Some ''foo'',
                     query_page = Some 2, query_limit = Some 2, params_id = Uncastable\<rparr>"

definition six_posts_served :: state where
  "six_posts_served = no_state\<lparr>blogs := six_posts, files := {''frontend/dist/index.html''}\<rparr>"

section \<open>Properties\<close>

subsection \<open>The collections\<close>

lemma map_of_update_first:
  "map_of (update_first i f c) j = (if j = i then map_option f (map_of c i) else map_of c j)"
  by (induction c) auto

lemma update_first_twice:
  "update_first i f (update_first i f c) = update_first i (f \<circ> f) c"
  by (induction c) auto

lemma update_first_keys: "map fst (update_first i f c) = map fst c"
  by (induction c) auto

lemma update_first_at:
  "map_of c i = Some d \<Longrightarrow>
     \<exists>k. k < length c \<and> c ! k = (i, d) \<and> update_first i f c = c[k := (i, f d)]"
proof (induction c)
  case Nil
  then show ?case by simp
next
  case (Cons a c)
  obtain j e where a: "a = (j, e)" by (cases a)
  show ?case
  proof (cases "j = i")
    case True
    with Cons.prems have "e = d" by (simp add: a)
    with True have "0 < length (a # c) \<and> (a # c) ! 0 = (i, d)
        \<and> update_first i f (a # c) = (a # c)[0 := (i, f d)]"
      by (simp add: a)
    then show ?thesis by blast
  next
    case False
    with Cons.prems have "map_of c i = Some d" by (simp add: a)
    from Cons.IH [OF this] obtain k where
      k: "k < length c" "c ! k = (i, d)" "update_first i f c = c[k := (i, f d)]" by blast
    with False have "Suc k < length (a # c) \<and> (a # c) ! Suc k = (i, d)
        \<and> update_first i f (a # c) = (a # c)[Suc k := (i, f d)]"
      by (simp add: a)
    then show ?thesis by blast
  qed
qed

lemma map_of_snoc_fresh: "map_of c i = None \<Longrightarrow> map_of (c @ [(i, d)]) i = Some d"
  by (induction c) (auto split: if_splits)

lemma delete_first_absent: "map_of c i = None \<Longrightarrow> delete_first i c = c"
  by (induction c) (auto split: if_splits)

lemma delete_first_appended: "map_of c i = None \<Longrightarrow> delete_first i (c @ [(i, d)]) = c"
  by (induction c) (auto split: if_splits)

lemma delete_first_subset: "x \<in> set (delete_first i c) \<Longrightarrow> x \<in> set c"
  by (induction c) (auto split: if_splits)

lemma delete_first_keys_subset:
  "k \<in> fst ` set (delete_first i c) \<Longrightarrow> k \<in> fst ` set c"
  using delete_first_subset by fastforce

lemma map_of_delete_first:
  "distinct (map fst c) \<Longrightarrow> map_of (delete_first i c) j = (if j = i then None else map_of c j)"
proof (induction c)
  case Nil
  then show ?case by simp
next
  case (Cons a c)
  obtain k d where a: "a = (k, d)" by (cases a)
  from Cons.prems have "k \<notin> fst ` set c" by (simp add: a)
  then have "map_of c k = None" by (simp add: map_of_eq_None_iff)
  with Cons show ?case by (auto simp: a)
qed

lemma findById_Some_iff:
  "findById idp c = Inr (Some (i, d)) \<longleftrightarrow> idp = Castable i \<and> map_of c i = Some d"
  by (cases idp) auto

text \<open>The operations on a collection keep its \<^verbatim>\<open>_id\<close> values distinct.\<close>

lemma delete_first_distinct: "distinct (map fst c) \<Longrightarrow> distinct (map fst (delete_first i c))"
proof (induction c)
  case Nil
  then show ?case by simp
next
  case (Cons a c)
  obtain k d where a: "a = (k, d)" by (cases a)
  from Cons have "k \<notin> fst ` set (delete_first i c)" "distinct (map fst (delete_first i c))"
    using delete_first_keys_subset [of k i c] by (auto simp: a)
  with Cons.prems show ?case by (simp add: a)
qed

lemma save_new_distinct:
  "distinct (map fst c) \<Longrightarrow> save_new i d c = Inr c' \<Longrightarrow> distinct (map fst c')"
  by (auto simp: save_new_def map_of_eq_None_iff split: if_splits)

lemma save_existing_distinct:
  "distinct (map fst c) \<Longrightarrow> distinct (map fst (save_existing i d c))"
  by (simp add: save_existing_def update_first_keys)

subsection \<open>The disk\<close>

lemma file_path_nonempty: "file_path f \<noteq> []"
  by (simp add: file_path_def uploadsDir_def)

lemma file_path_png17: "file_path png17 = ''uploads/17.png''"
  by (simp add: file_path_def filename_def uploadsDir_def png17_def) code_simp

lemma remove_image_result:
  "remove_image img fs = Inr (if truthy img then fs - {the img} else fs)"
  by (cases img) (auto simp: remove_image_def existsSync_def unlinkSync_def)

subsection \<open>Registration check-in\<close>

text \<open>
  C5. For an id that finds a registration, the check-in answers 200 with the record, its
  \<^verbatim>\<open>check\<close> flag true, and stores it; a second check-in of the same id answers the same
  and leaves the state as the first one left it.
\<close>

theorem checkin_idempotent:
  assumes "findById idp (users s) = Inr (Some (i, u))"
  shows "let ok = Response 200
                    (MessageWithUser ''User checked in successfully'' (i, u\<lparr>check := True\<rparr>));
             s' = snd (register_patch idp body s)
         in register_patch idp body s = (ok, s')
          \<and> findById idp (users s') = Inr (Some (i, u\<lparr>check := True\<rparr>))
          \<and> register_patch idp body s' = (ok, s')"
proof -
  from assms have idp: "idp = Castable i" and u: "map_of (users s) i = Some u"
    by (simp_all add: findById_Some_iff)
  let ?f = "\<lambda>r::registration. r\<lparr>check := True\<rparr>"
  have ff: "?f \<circ> ?f = ?f" by (rule ext) simp
  show ?thesis
    using u by (simp add: idp register_patch_def Let_def map_of_update_first update_first_twice ff)
qed

theorem checkin_idempotent_witness:
  "findById (Castable 4) (users (no_state\<lparr>users := [(4, ada)]\<rparr>)) = Inr (Some (4, ada))
   \<and> (let ok = Response 200
                  (MessageWithUser ''User checked in successfully'' (4, ada\<lparr>check := True\<rparr>));
           s' = snd (register_patch (Castable 4) () (no_state\<lparr>users := [(4, ada)]\<rparr>))
       in register_patch (Castable 4) () (no_state\<lparr>users := [(4, ada)]\<rparr>) = (ok, s')
        \<and> findById (Castable 4) (users s') = Inr (Some (4, ada\<lparr>check := True\<rparr>))
        \<and> register_patch (Castable 4) () s' = (ok, s'))"
proof -
  have h: "findById (Castable 4) (users (no_state\<lparr>users := [(4, ada)]\<rparr>)) = Inr (Some (4, ada))"
    by simp
  from h checkin_idempotent [OF h, of "()"] show ?thesis by blast
qed

text \<open>
  C6, as amended. For an id that finds no registration, the check-in leaves the state as
  it was (no record is created and none is modified); it answers 404 when Mongoose can
  cast the id to an ObjectId, and 400 when it cannot.
\<close>

theorem checkin_unknown_id:
  assumes "\<forall>d. findById idp (users s) \<noteq> Inr (Some d)"
  shows "register_patch idp body s =
           (case idp of
              Castable i \<Rightarrow> Response 404 (Message ''User not found'')
            | Uncastable \<Rightarrow> Response 400 (MessageWithError ''Error updating user'' CastError),
            s)"
proof (cases idp)
  case (Castable i)
  with assms have "map_of (users s) i = None" by (cases "map_of (users s) i") auto
  then show ?thesis by (simp add: Castable register_patch_def)
next
  case Uncastable
  then show ?thesis by (simp add: register_patch_def)
qed

theorem checkin_unknown_id_witness:
  "(\<forall>d. findById (Castable 7) (users (no_state\<lparr>users := [(4, ada)]\<rparr>)) \<noteq> Inr (Some d))
   \<and> register_patch (Castable 7) () (no_state\<lparr>users := [(4, ada)]\<rparr>)
       = (Response 404 (Message ''User not found''), no_state\<lparr>users := [(4, ada)]\<rparr>)"
proof -
  have h: "\<forall>d. findById (Castable 7) (users (no_state\<lparr>users := [(4, ada)]\<rparr>)) \<noteq> Inr (Some d)"
    by simp
  from h checkin_unknown_id [OF h, of "()"] show ?thesis by simp
qed

text \<open>
  C6 as it is stated fails: an id that Mongoose cannot cast finds no registration, and the
  check-in answers 400, not 404.
\<close>

theorem checkin_unknown_id_counterexample:
  "findById Uncastable (users no_state) = Inl CastError
   \<and> register_patch Uncastable () no_state
       = (Response 400 (MessageWithError ''Error updating user'' CastError), no_state)"
  by (simp add: register_patch_def)

text \<open>
  C10. For an id that finds a registration, and whatever the request body, the check-in
  changes one entry of the collection, the one found, and in it only \<^verbatim>\<open>check\<close>: name,
  email, location, church and phone are as before. The other collections and the disk
  are as before, and the body has no influence on the response or the new state.
\<close>

theorem checkin_changes_only_check:
  assumes "findById idp (users s) = Inr (Some (i, u))"
  shows "let s' = snd (register_patch idp body s) in
           (\<exists>k u'. k < length (users s) \<and> users s ! k = (i, u)
               \<and> users s' = (users s)[k := (i, u')] \<and> check u'
               \<and> name u' = name u \<and> email u' = email u \<and> location u' = location u
               \<and> church u' = church u \<and> phone u' = phone u)
         \<and> blogs s' = blogs s \<and> events s' = events s \<and> files s' = files s
         \<and> register_patch idp body' s = register_patch idp body s"
proof -
  from assms have idp: "idp = Castable i" and u: "map_of (users s) i = Some u"
    by (simp_all add: findById_Some_iff)
  from update_first_at [OF u, of "\<lambda>r. r\<lparr>check := True\<rparr>"] obtain k where
    k: "k < length (users s)" "users s ! k = (i, u)"
       "update_first i (\<lambda>r. r\<lparr>check := True\<rparr>) (users s) = (users s)[k := (i, u\<lparr>check := True\<rparr>)]"
    by blast
  have s': "snd (register_patch idp body s)
      = s\<lparr>users := (users s)[k := (i, u\<lparr>check := True\<rparr>)]\<rparr>"
    using u k(3) by (simp add: idp register_patch_def)
  have "\<exists>k' u'. k' < length (users s) \<and> users s ! k' = (i, u)
      \<and> (users s)[k := (i, u\<lparr>check := True\<rparr>)] = (users s)[k' := (i, u')] \<and> check u'
      \<and> name u' = name u \<and> email u' = email u \<and> location u' = location u
      \<and> church u' = church u \<and> phone u' = phone u"
    using k(1,2) by (intro exI [of _ k] exI [of _ "u\<lparr>check := True\<rparr>"]) simp
  moreover have "register_patch idp body' s = register_patch idp body s"
    by (simp add: register_patch_def)
  ultimately show ?thesis unfolding Let_def s' by simp
qed

theorem checkin_changes_only_check_witness:
  "findById (Castable 5) (users (no_state\<lparr>users := [(4, ada), (5, bob)]\<rparr>)) = Inr (Some (5, bob))
   \<and> users (snd (register_patch (Castable 5) ''check=false''
              (no_state\<lparr>users := [(4, ada), (5, bob)]\<rparr>)))
       = [(4, ada), (5, bob\<lparr>check := True\<rparr>)]
   \<and> (let s' = snd (register_patch (Castable 5) ''check=false''
                  (no_state\<lparr>users := [(4, ada), (5, bob)]\<rparr>)) in
         (\<exists>k u'. k < length (users (no_state\<lparr>users := [(4, ada), (5, bob)]\<rparr>))
             \<and> users (no_state\<lparr>users := [(4, ada), (5, bob)]\<rparr>) ! k = (5, bob)
             \<and> users s' = (users (no_state\<lparr>users := [(4, ada), (5, bob)]\<rparr>))[k := (5, u')]
             \<and> check u' \<and> name u' = name bob \<and> email u' = email bob
             \<and> location u' = location bob \<and> church u' = church bob \<and> phone u' = phone bob)
       \<and> blogs s' = blogs (no_state\<lparr>users := [(4, ada), (5, bob)]\<rparr>)
       \<and> events s' = events (no_state\<lparr>users := [(4, ada), (5, bob)]\<rparr>)
       \<and> files s' = files (no_state\<lparr>users := [(4, ada), (5, bob)]\<rparr>)
       \<and> register_patch (Castable 5) () (no_state\<lparr>users := [(4, ada), (5, bob)]\<rparr>)
           = register_patch (Castable 5) ''check=false'' (no_state\<lparr>users := [(4, ada), (5, bob)]\<rparr>))"
proof -
  have h: "findById (Castable 5) (users (no_state\<lparr>users := [(4, ada), (5, bob)]\<rparr>))
      = Inr (Some (5, bob))"
    by simp
  have e: "users (snd (register_patch (Castable 5) ''check=false''
              (no_state\<lparr>users := [(4, ada), (5, bob)]\<rparr>)))
       = [(4, ada), (5, bob\<lparr>check := True\<rparr>)]"
    by (simp add: register_patch_def)
  from h e checkin_changes_only_check [OF h, of "''check=false''" "()"] show ?thesis by blast
qed

subsection \<open>Blog posts\<close>

text \<open>
  C3. When the \<^verbatim>\<open>_id\<close> values of the blog collection are distinct and the id finds a post
  whose image is a path (not empty, as the path of an attached file is), the delete
  answers 204, after it the id finds no post, and the file at that path does not exist.
\<close>

theorem blog_delete_removes_record_and_file:
  assumes "distinct (map fst (blogs s))"
    and "findById idp (blogs s) = Inr (Some (i, b))"
    and "blog_image b = Some p" and "p \<noteq> []"
  shows "let s' = snd (blogs_delete idp s) in
           fst (blogs_delete idp s) = Response 204 NoBody
         \<and> findById idp (blogs s') = Inr None
         \<and> \<not> existsSync p (files s')"
proof -
  from assms(2) have idp: "idp = Castable i" and b: "map_of (blogs s) i = Some b"
    by (simp_all add: findById_Some_iff)
  show ?thesis
    using assms(1,3,4) b
    by (simp add: idp blogs_delete_def remove_image_result map_of_delete_first existsSync_def)
qed

text \<open>The instance: a post is created with an attached image, then deleted.\<close>

theorem blog_delete_removes_record_and_file_witness:
  "snd (blogs_post 9 hello_form no_state)
     = no_state\<lparr>blogs := [(9, hello_blog)], files := {''uploads/17.png''}\<rparr>
   \<and> distinct (map fst (blogs (snd (blogs_post 9 hello_form no_state))))
   \<and> findById (Castable 9) (blogs (snd (blogs_post 9 hello_form no_state)))
       = Inr (Some (9, hello_blog))
   \<and> blog_image hello_blog = Some ''uploads/17.png'' \<and> ''uploads/17.png'' \<noteq> []
   \<and> (let s' = snd (blogs_delete (Castable 9) (snd (blogs_post 9 hello_form no_state))) in
         fst (blogs_delete (Castable 9) (snd (blogs_post 9 hello_form no_state)))
           = Response 204 NoBody
       \<and> findById (Castable 9) (blogs s') = Inr None
       \<and> \<not> existsSync ''uploads/17.png'' (files s'))"
proof -
  have created: "snd (blogs_post 9 hello_form no_state)
      = no_state\<lparr>blogs := [(9, hello_blog)], files := {''uploads/17.png''}\<rparr>"
    by (simp add: blogs_post_def upload_single_def save_new_def hello_form_def hello_blog_def
        no_state_def file_path_png17 Let_def)
  have h1: "distinct (map fst (blogs (snd (blogs_post 9 hello_form no_state))))"
    by (simp add: created)
  have h2: "findById (Castable 9) (blogs (snd (blogs_post 9 hello_form no_state)))
      = Inr (Some (9, hello_blog))"
    by (simp add: created)
  have h3: "blog_image hello_blog = Some ''uploads/17.png''"
    by (simp add: hello_blog_def)
  have h4: "''uploads/17.png'' \<noteq> []" by simp
  from created h1 h2 h3 h4 blog_delete_removes_record_and_file [OF h1 h2 h3 h4]
  show ?thesis by blast
qed



lemma upload_single_fields [simp]:
  "users (upload_single file s) = users s" "blogs (upload_single file s) = blogs s"
  "events (upload_single file s) = events s"
  "files (upload_single file s) =
     (case file of None \<Rightarrow> files s | Some f \<Rightarrow> insert (file_path f) (files s))"
  by (simp_all add: upload_single_def split: option.split)

lemma truthy_set: "{p. img = Some p \<and> p \<noteq> []} = (if truthy img then {the img} else {})"
  by (cases img) auto

text \<open>A post created with an attached file has the path of that file, which is not
  empty, as its image; and the blog handlers keep the \<^verbatim>\<open>_id\<close> values distinct.\<close>

lemma created_with_file_has_path:
  assumes "form_file req = Some f" and "map_of (blogs s) i = None"
  shows "\<exists>b. fst (blogs_post i req s) = Response 201 (BlogJson (i, b))
           \<and> map_of (blogs (snd (blogs_post i req s))) i = Some b
           \<and> blog_image b = Some (file_path f) \<and> file_path f \<noteq> []
           \<and> existsSync (file_path f) (files (snd (blogs_post i req s)))"
  using assms
  by (simp add: blogs_post_def save_new_def Let_def map_of_snoc_fresh file_path_nonempty
      existsSync_def del: map_of_append)

lemma blogs_post_distinct:
  "distinct (map fst (blogs s)) \<Longrightarrow> distinct (map fst (blogs (snd (blogs_post i req s))))"
  by (auto simp: blogs_post_def save_new_def Let_def map_of_eq_None_iff split: if_splits)

lemma blogs_delete_distinct:
  "distinct (map fst (blogs s)) \<Longrightarrow> distinct (map fst (blogs (snd (blogs_delete idp s))))"
  by (cases idp)
    (auto simp: blogs_delete_def remove_image_result delete_first_distinct split: option.splits)

lemma blogs_put_distinct:
  "distinct (map fst (blogs s)) \<Longrightarrow> distinct (map fst (blogs (snd (blogs_put idp req s))))"
  by (cases idp)
    (auto simp: blogs_put_def Let_def remove_image_result save_existing_distinct
      split: option.splits)

lemma file_path_jpg23: "file_path jpg23 = ''uploads/23.jpg''"
  by (simp add: file_path_def filename_def uploadsDir_def jpg23_def) code_simp


text \<open>
  C1. For an id that finds a post, the update answers 200 with the post as saved. Its
  title is the request's title when that is a non-empty string and the old title when
  it is left out or empty, and so for the content. With an attached file the image is
  the path of the file multer stored, and the disk is the old one with that file and
  without the file at the old non-empty image path; with no attached file the image and
  the disk are as before.
\<close>

theorem blog_update_image_and_merge:
  assumes "findById idp (blogs s) = Inr (Some (i, b))"
  shows "let s' = snd (blogs_put idp req s);
             b' = \<lparr>blog_title = (if truthy (form_title req) then form_title req else blog_title b),
                   blog_content =
                     (if truthy (form_content req) then form_content req else blog_content b),
                   blog_image =
                     (case form_file req of None \<Rightarrow> blog_image b | Some f \<Rightarrow> Some (file_path f))\<rparr>
         in fst (blogs_put idp req s) = Response 200 (BlogJson (i, b'))
          \<and> findById idp (blogs s') = Inr (Some (i, b'))
          \<and> files s' =
              (case form_file req of
                 None \<Rightarrow> files s
               | Some f \<Rightarrow> insert (file_path f) (files s) - {p. blog_image b = Some p \<and> p \<noteq> []})"
proof -
  from assms have idp: "idp = Castable i" and b: "map_of (blogs s) i = Some b"
    by (simp_all add: findById_Some_iff)
  show ?thesis
  proof (cases "form_file req")
    case None
    then show ?thesis
      using b by (simp add: idp blogs_put_def Let_def js_or_def save_existing_def map_of_update_first)
  next
    case (Some f)
    then show ?thesis
      using b by (simp add: idp blogs_put_def Let_def js_or_def save_existing_def
          map_of_update_first remove_image_result truthy_set)
  qed
qed



text \<open>The instances: an update with a new file and an empty title, and an update with a
  title only.\<close>

theorem blog_update_image_and_merge_witness:
  "findById (Castable 9) (blogs one_post) = Inr (Some (9, hello_blog))
   \<and> blogs_put (Castable 9)
        \<lparr>form_title = Some [], form_content = Some ''Moon'', form_file = Some jpg23\<rparr> one_post
       = (Response 200 (BlogJson (9, \<lparr>blog_title = Some ''Hello'', blog_content = Some ''Moon'',
                                       blog_image = Some ''uploads/23.jpg''\<rparr>)),
          no_state\<lparr>blogs := [(9, \<lparr>blog_title = Some ''Hello'', blog_content = Some ''Moon'',
                                      blog_image = Some ''uploads/23.jpg''\<rparr>)],
                    files := {''uploads/23.jpg''}\<rparr>)
   \<and> blogs_put (Castable 9)
        \<lparr>form_title = Some ''Bye'', form_content = None, form_file = None\<rparr> one_post
       = (Response 200 (BlogJson (9, \<lparr>blog_title = Some ''Bye'', blog_content = Some ''World'',
                                       blog_image = Some ''uploads/17.png''\<rparr>)),
          no_state\<lparr>blogs := [(9, \<lparr>blog_title = Some ''Bye'', blog_content = Some ''World'',
                                      blog_image = Some ''uploads/17.png''\<rparr>)],
                    files := {''uploads/17.png''}\<rparr>)"
proof -
  have h: "findById (Castable 9) (blogs one_post) = Inr (Some (9, hello_blog))"
    by (simp add: one_post_def)
  let ?r1 = "\<lparr>form_title = Some [], form_content = Some ''Moon'', form_file = Some jpg23\<rparr>"
  let ?r2 = "\<lparr>form_title = Some ''Bye'', form_content = None, form_file = None\<rparr>"
  have s1: "snd (blogs_put (Castable 9) ?r1 one_post)
      = no_state\<lparr>blogs := [(9, \<lparr>blog_title = Some ''Hello'', blog_content = Some ''Moon'',
                                      blog_image = Some ''uploads/23.jpg''\<rparr>)],
                    files := {''uploads/23.jpg''}\<rparr>"
    by (simp add: blogs_put_def one_post_def no_state_def hello_blog_def Let_def js_or_def
        save_existing_def remove_image_result file_path_jpg23 upload_single_def insert_Diff_if)
  have s2: "snd (blogs_put (Castable 9) ?r2 one_post)
      = no_state\<lparr>blogs := [(9, \<lparr>blog_title = Some ''Bye'', blog_content = Some ''World'',
                                      blog_image = Some ''uploads/17.png''\<rparr>)],
                    files := {''uploads/17.png''}\<rparr>"
    by (simp add: blogs_put_def one_post_def no_state_def hello_blog_def Let_def js_or_def
        save_existing_def remove_image_result upload_single_def)
  have f1: "fst (blogs_put (Castable 9) ?r1 one_post)
      = Response 200 (BlogJson (9, \<lparr>blog_title = Some ''Hello'', blog_content = Some ''Moon'',
                                       blog_image = Some ''uploads/23.jpg''\<rparr>))"
    using blog_update_image_and_merge [OF h, of ?r1]
    by (simp add: Let_def hello_blog_def file_path_jpg23)
  have f2: "fst (blogs_put (Castable 9) ?r2 one_post)
      = Response 200 (BlogJson (9, \<lparr>blog_title = Some ''Bye'', blog_content = Some ''World'',
                                       blog_image = Some ''uploads/17.png''\<rparr>))"
    using blog_update_image_and_merge [OF h, of ?r2]
    by (simp add: Let_def hello_blog_def)
  from h s1 s2 f1 f2 show ?thesis by (simp add: prod_eq_iff)
qed


text \<open>
  C7. The guarded removal of a path that is not on disk returns the disk as it is, with
  no error. So does every handler that removes a file: when the image of the post or
  event found is such a path, the two deletes answer 204 and change nothing but the
  collection, and the update with a new file answers 200 and leaves on disk what multer
  left there.
\<close>


theorem missing_file_removal_is_noop:
  "(\<not> existsSync p fs \<longrightarrow> remove_image (Some p) fs = Inr fs)
   \<and> (findById idp (blogs s) = Inr (Some (i, b)) \<and> blog_image b = Some p
        \<and> \<not> existsSync p (files s)
      \<longrightarrow> blogs_delete idp s = (Response 204 NoBody, s\<lparr>blogs := delete_first i (blogs s)\<rparr>))
   \<and> (findById idp' (events s) = Inr (Some (j, e)) \<and> event_image e = Some p
        \<and> \<not> existsSync p (files s)
      \<longrightarrow> events_delete idp' s = (Response 204 NoBody, s\<lparr>events := delete_first j (events s)\<rparr>))
   \<and> (form_file req = Some f \<and> findById idp (blogs s) = Inr (Some (i, b))
        \<and> blog_image b = Some p \<and> \<not> existsSync p (files (upload_single (Some f) s))
      \<longrightarrow> (\<exists>b'. fst (blogs_put idp req s) = Response 200 (BlogJson (i, b')))
        \<and> files (snd (blogs_put idp req s)) = files (upload_single (Some f) s))"
proof -
  have r: "remove_image (Some p) fs = Inr fs" if "\<not> existsSync p fs" for fs
    using that by (simp add: remove_image_def)
  have d: "blogs_delete idp s = (Response 204 NoBody, s\<lparr>blogs := delete_first i (blogs s)\<rparr>)"
    if "findById idp (blogs s) = Inr (Some (i, b))" "blog_image b = Some p"
      "\<not> existsSync p (files s)"
    using that r [OF that(3)] by (cases idp) (auto simp: blogs_delete_def)
  have e: "events_delete idp' s = (Response 204 NoBody, s\<lparr>events := delete_first j (events s)\<rparr>)"
    if "findById idp' (events s) = Inr (Some (j, e))" "event_image e = Some p"
      "\<not> existsSync p (files s)"
    using that r [OF that(3)] by (cases idp') (auto simp: events_delete_def)
  have u: "(\<exists>b'. fst (blogs_put idp req s) = Response 200 (BlogJson (i, b')))
      \<and> files (snd (blogs_put idp req s)) = files (upload_single (Some f) s)"
    if "form_file req = Some f" "findById idp (blogs s) = Inr (Some (i, b))"
      "blog_image b = Some p" "\<not> existsSync p (files (upload_single (Some f) s))"
    using that r [OF that(4)] by (cases idp) (auto simp: blogs_put_def Let_def)
  from r d e u show ?thesis by blast
qed

theorem missing_file_removal_is_noop_witness:
  "\<not> existsSync ''uploads/gone.png'' (files dangling)
   \<and> remove_image (Some ''uploads/gone.png'') (files dangling) = Inr (files dangling)
   \<and> findById (Castable 9) (blogs dangling) = Inr (Some (9, gone_blog))
   \<and> blog_image gone_blog = Some ''uploads/gone.png''
   \<and> blogs_delete (Castable 9) dangling = (Response 204 NoBody, dangling\<lparr>blogs := []\<rparr>)
   \<and> findById (Castable 3) (events dangling) = Inr (Some (3, gone_event))
   \<and> event_image gone_event = Some ''uploads/gone.png''
   \<and> events_delete (Castable 3) dangling = (Response 204 NoBody, dangling\<lparr>events := []\<rparr>)
   \<and> form_file \<lparr>form_title = None, form_content = None, form_file = Some jpg23\<rparr> = Some jpg23
   \<and> \<not> existsSync ''uploads/gone.png'' (files (upload_single (Some jpg23) dangling))
   \<and> files (snd (blogs_put (Castable 9)
                \<lparr>form_title = None, form_content = None, form_file = Some jpg23\<rparr> dangling))
       = {''uploads/23.jpg'', ''uploads/17.png''}"
proof -
  let ?p = "''uploads/gone.png''"
  let ?req = "\<lparr>form_title = None, form_content = None, form_file = Some jpg23\<rparr>"
  have h1: "\<not> existsSync ?p (files dangling)"
    by (simp add: existsSync_def dangling_def)
  have h2: "findById (Castable 9) (blogs dangling) = Inr (Some (9, gone_blog))"
    by (simp add: dangling_def)
  have h3: "blog_image gone_blog = Some ?p" by (simp add: gone_blog_def)
  have h4: "findById (Castable 3) (events dangling) = Inr (Some (3, gone_event))"
    by (simp add: dangling_def)
  have h5: "event_image gone_event = Some ?p" by (simp add: gone_event_def)
  have h6: "form_file ?req = Some jpg23" by simp
  have h7: "\<not> existsSync ?p (files (upload_single (Some jpg23) dangling))"
    by (simp add: existsSync_def dangling_def file_path_jpg23)
  have d: "delete_first 9 (blogs dangling) = []" "delete_first 3 (events dangling) = []"
    by (simp_all add: dangling_def)
  have f: "insert (file_path jpg23) (files dangling) = {''uploads/23.jpg'', ''uploads/17.png''}"
    by (simp add: dangling_def file_path_jpg23)
  from missing_file_removal_is_noop [of ?p "files dangling" "Castable 9" dangling 9 gone_blog
      "Castable 3" 3 gone_event ?req jpg23] h1 h2 h3 h4 h5 h6 h7
  show ?thesis by (simp add: d f)
qed



text \<open>
  C9. A post created with no attached file (the new ObjectId not taken) is stored with
  the empty string as its image, and the disk is as before; deleting it then answers 204
  and gives back the state before the create, so nothing on disk is removed. The same
  holds for an event (its date one that Mongoose accepts).
\<close>

theorem created_without_file:
  assumes "form_file breq = None" and "findById (Castable i) (blogs s) = Inr None"
    and "eform_file ereq = None" and "eform_date ereq \<noteq> BadDate"
    and "findById (Castable j) (events s) = Inr None"
  shows "(let b = \<lparr>blog_title = form_title breq, blog_content = form_content breq,
                    blog_image = Some []\<rparr>;
              s1 = snd (blogs_post i breq s)
          in fst (blogs_post i breq s) = Response 201 (BlogJson (i, b))
           \<and> findById (Castable i) (blogs s1) = Inr (Some (i, b))
           \<and> files s1 = files s
           \<and> blogs_delete (Castable i) s1 = (Response 204 NoBody, s))
       \<and> (let e = \<lparr>event_title = eform_title ereq,
                    event_date = (case eform_date ereq of DateAt t \<Rightarrow> Some t | _ \<Rightarrow> None),
                    event_time = eform_time ereq, event_image = Some []\<rparr>;
              s1 = snd (events_post j ereq s)
          in fst (events_post j ereq s) = Response 201 (EventJson (j, e))
           \<and> findById (Castable j) (events s1) = Inr (Some (j, e))
           \<and> files s1 = files s
           \<and> events_delete (Castable j) s1 = (Response 204 NoBody, s))"
proof -
  from assms(2) have i: "map_of (blogs s) i = None" by simp
  from assms(5) have j: "map_of (events s) j = None" by simp
  let ?b = "\<lparr>blog_title = form_title breq, blog_content = form_content breq, blog_image = Some []\<rparr>"
  have post: "blogs_post i breq s = (Response 201 (BlogJson (i, ?b)), s\<lparr>blogs := blogs s @ [(i, ?b)]\<rparr>)"
    using assms(1) i by (simp add: blogs_post_def save_new_def upload_single_def Let_def)
  have del: "blogs_delete (Castable i) (s\<lparr>blogs := blogs s @ [(i, ?b)]\<rparr>) = (Response 204 NoBody, s)"
    using i by (simp add: blogs_delete_def map_of_snoc_fresh remove_image_result delete_first_appended
        del: map_of_append)
  let ?e = "\<lparr>event_title = eform_title ereq,
             event_date = (case eform_date ereq of DateAt t \<Rightarrow> Some t | _ \<Rightarrow> None),
             event_time = eform_time ereq, event_image = Some []\<rparr>"
  have epost: "events_post j ereq s
      = (Response 201 (EventJson (j, ?e)), s\<lparr>events := events s @ [(j, ?e)]\<rparr>)"
    using assms(3,4) j
    by (cases "eform_date ereq") (simp_all add: events_post_def save_new_def upload_single_def Let_def)
  have edel: "events_delete (Castable j) (s\<lparr>events := events s @ [(j, ?e)]\<rparr>)
      = (Response 204 NoBody, s)"
    using j by (simp add: events_delete_def map_of_snoc_fresh remove_image_result delete_first_appended
        del: map_of_append)
  show ?thesis
    using i j by (simp add: Let_def post del epost edel map_of_snoc_fresh del: map_of_append)
qed

theorem created_without_file_witness:
  "form_file plain_form = None \<and> findById (Castable 6) (blogs one_post) = Inr None
   \<and> eform_file plain_event_form = None \<and> eform_date plain_event_form \<noteq> BadDate
   \<and> findById (Castable 2) (events one_post) = Inr None
   \<and> blogs_post 6 plain_form one_post
       = (Response 201 (BlogJson (6, \<lparr>blog_title = Some ''Notes'',
                                       blog_content = Some ''Text only'', blog_image = Some []\<rparr>)),
          one_post\<lparr>blogs := [(9, hello_blog),
                               (6, \<lparr>blog_title = Some ''Notes'', blog_content = Some ''Text only'',
                                     blog_image = Some []\<rparr>)]\<rparr>)
   \<and> blogs_delete (Castable 6) (snd (blogs_post 6 plain_form one_post))
       = (Response 204 NoBody, one_post)
   \<and> events_delete (Castable 2) (snd (events_post 2 plain_event_form one_post))
       = (Response 204 NoBody, one_post)"
proof -
  have h1: "form_file plain_form = None" by (simp add: plain_form_def)
  have h2: "findById (Castable 6) (blogs one_post) = Inr None" by (simp add: one_post_def)
  have h3: "eform_file plain_event_form = None" by (simp add: plain_event_form_def)
  have h4: "eform_date plain_event_form \<noteq> BadDate" by (simp add: plain_event_form_def)
  have h5: "findById (Castable 2) (events one_post) = Inr None"
    by (simp add: one_post_def no_state_def)
  have p: "blogs_post 6 plain_form one_post
       = (Response 201 (BlogJson (6, \<lparr>blog_title = Some ''Notes'',
                                       blog_content = Some ''Text only'', blog_image = Some []\<rparr>)),
          one_post\<lparr>blogs := [(9, hello_blog),
                               (6, \<lparr>blog_title = Some ''Notes'', blog_content = Some ''Text only'',
                                     blog_image = Some []\<rparr>)]\<rparr>)"
    by (simp add: blogs_post_def save_new_def upload_single_def plain_form_def one_post_def Let_def)
  from created_without_file [OF h1 h2 h3 h4 h5] h1 h2 h3 h4 h5 p
  show ?thesis by (simp add: Let_def plain_form_def)
qed


subsection \<open>Events\<close>

lemma sorted_map_Some: "sorted (map Some ds) = sorted ds"
  by (induction ds) auto


text \<open>
  C4. The listing answers 200 with the events whose date is at or after the current
  time, each as often as it is stored and no other, in ascending order of date; the
  state is unchanged.
\<close>

theorem events_listing:
  "\<exists>es ds. events_get now s = (Response 200 (EventsJson es), s)
     \<and> mset es = filter_mset (\<lambda>e. \<exists>d. event_date (snd e) = Some d \<and> now \<le> d) (mset (events s))
     \<and> map (\<lambda>e. event_date (snd e)) es = map Some ds
     \<and> sorted ds"
proof -
  let ?key = "\<lambda>e::oid \<times> event. event_date (snd e)"
  let ?es = "sort_key ?key (filter (date_gte now) (events s))"
  let ?ds = "map (\<lambda>e. the (?key e)) ?es"
  have gte: "date_gte now = (\<lambda>e. \<exists>d. event_date (snd e) = Some d \<and> now \<le> d)"
    by (rule ext) (simp add: date_gte_def split: option.split)
  have m: "mset ?es = filter_mset (\<lambda>e. \<exists>d. event_date (snd e) = Some d \<and> now \<le> d) (mset (events s))"
    by (simp add: gte)
  have "\<forall>e \<in> set ?es. ?key e \<noteq> None"
    by (auto simp: date_gte_def split: option.splits)
  then have k: "map ?key ?es = map Some ?ds"
    by (induction "?es") auto
  have "sorted (map ?key ?es)" by (rule sorted_sort_key)
  then have "sorted ?ds" by (simp only: k sorted_map_Some)
  with m k have "events_get now s = (Response 200 (EventsJson ?es), s)
     \<and> mset ?es = filter_mset (\<lambda>e. \<exists>d. event_date (snd e) = Some d \<and> now \<le> d) (mset (events s))
     \<and> map ?key ?es = map Some ?ds \<and> sorted ?ds"
    by (simp add: events_get_def)
  then show ?thesis by blast
qed


text \<open>On a collection with past, present, future and undated events, at time 5000:\<close>

lemma events_listing_mixed:
  "fst (events_get 5000 (no_state\<lparr>events := mixed_events\<rparr>))
     = Response 200 (EventsJson [mixed_events ! 2, mixed_events ! 4, mixed_events ! 0])"
  by (simp add: events_get_def no_state_def mixed_events_def date_gte_def)

subsection \<open>The Mailchimp subscription\<close>

text \<open>A reply with a status in 200..299 gives the local 200. Every other such reply makes
  axios throw, so the handler's catch answers 500 whatever the provider's status was, and
  the branch that would pass the provider's status and payload on is never taken.\<close>

lemma subscribe_2xx:
  "truthy e \<Longrightarrow> 200 \<le> st \<Longrightarrow> st < 300 \<Longrightarrow>
     subscribe e (Replied st d) = Response 200 (Message ''Subscription successful'')"
  by (simp add: subscribe_def axios_post_def)

lemma subscribe_not_2xx:
  "truthy e \<Longrightarrow> \<not> (200 \<le> st \<and> st < 300) \<Longrightarrow>
     subscribe e (Replied st d)
       = Response 500 (MessageWithError ''Error subscribing to Mailchimp'' (AxiosError (Some st)))"
  by (simp add: subscribe_def axios_post_def)

text \<open>A redirect is followed, and the reply at its end is the one that counts.\<close>

lemma subscribe_redirect_followed:
  "subscribe (Some ''ada@example.org'') (Redirected (Replied 200 ''ok''))
     = Response 200 (Message ''Subscription successful'')"
  by (simp add: subscribe_def axios_post_def eval_nat_numeral)

text \<open>
  C2 asks that a provider reply outside 200..299 surfaces locally with the provider's
  status and payload. It does not: a reply of 400 with a payload is answered with 500
  and the error axios threw, without the payload.
\<close>

theorem subscribe_provider_400:
  "subscribe (Some ''ada@example.org'') (Replied 400 ''Invalid Resource'')
     = Response 500 (MessageWithError ''Error subscribing to Mailchimp'' (AxiosError (Some 400)))"
  by (simp add: subscribe_def axios_post_def)

subsection \<open>Title search\<close>

text \<open>First the body of the search handler, were a request to reach it. For a pattern of
  ordinary characters the regular expression finds what a case-insensitive substring
  search finds.\<close>

lemma matches_at_prefix:
  "CHR ''.'' \<notin> set ps \<Longrightarrow> matches_at ps cs = prefix (map to_lower ps) (map to_lower cs)"
  by (induction ps cs rule: matches_at.induct) (auto simp: item_matches_def)

lemma matches_in_sublist:
  "CHR ''.'' \<notin> set ps \<Longrightarrow> matches_in ps cs = sublist (map to_lower ps) (map to_lower cs)"
proof (induction cs)
  case Nil
  then show ?case by (cases ps) simp_all
next
  case (Cons c cs)
  then show ?case by (simp add: matches_at_prefix sublist_Cons_right del: matches_at.simps)
qed

lemma plain_pattern:
  assumes "list_all (\<lambda>c. \<not> regex_special c) q"
  shows "pattern_modelled q" and "CHR ''.'' \<notin> set q"
proof -
  from assms have a: "\<forall>c \<in> set q. \<not> regex_special c" by (simp add: list_all_iff)
  then show "pattern_modelled q" by (simp add: pattern_modelled_def list_ex_iff)
  have "regex_special CHR ''.''" by (simp add: regex_special_def)
  with a show "CHR ''.'' \<notin> set q" by blast
qed

lemma title_regex_plain:
  "list_all (\<lambda>c. \<not> regex_special c) q \<Longrightarrow> title_regex q b = Some (title_contains q b)"
  by (simp add: title_regex_def title_contains_def regex_i_def contains_ci_def plain_pattern
      matches_in_sublist split: option.split)

lemma find_title_regex_plain:
  assumes "list_all (\<lambda>c. \<not> regex_special c) q"
  shows "find_title_regex q c = Some (filter (title_contains q) c)"
  using assms by (simp add: find_title_regex_def title_regex_plain plain_pattern list_ex_iff)

text \<open>
  For a search query without regular expression special characters, a page number that
  is left out or at least 1 and a limit that is left out or at least 1, the body computes
  what the specification asks for: the posts whose title contains the query
  case-insensitively, in insertion order, cut to the page.
\<close>

lemma search_body_plain_query:
  assumes "list_all (\<lambda>c. \<not> regex_special c) q"
    and "case page of None \<Rightarrow> True | Some p \<Rightarrow> 1 \<le> p"
    and "case limit of None \<Rightarrow> True | Some l \<Rightarrow> 1 \<le> l"
  shows "blogs_search (Some q) page limit s
           = Some (Response 200 (BlogsObject (spec_search q page limit (blogs s))))"
proof -
  define p where "p = (case page of None \<Rightarrow> 1 | Some p \<Rightarrow> p)"
  define l where "l = (case limit of None \<Rightarrow> 28 | Some l \<Rightarrow> l)"
  from assms(2) have p: "1 \<le> p" by (simp add: p_def split: option.splits)
  from assms(3) have l: "1 \<le> l" by (simp add: l_def split: option.splits)
  from p l have skip: "0 \<le> (p - 1) * l" by simp
  from l have lim: "l \<noteq> 0" "\<bar>l\<bar> = l" by simp_all
  have "blogs_search (Some q) page limit s
      = Some (Response 200 (BlogsObject
          (take (nat l) (drop (nat ((p - 1) * l)) (filter (title_contains q) (blogs s))))))"
    using skip lim
    by (simp add: blogs_search_def find_title_regex_plain [OF assms(1)] mongo_skip_def
        mongo_limit_def p_def [symmetric] l_def [symmetric] del: mult_nonneg_nonneg)
  also have "take (nat l) (drop (nat ((p - 1) * l)) (filter (title_contains q) (blogs s)))
      = spec_search q page limit (blogs s)"
    by (simp add: spec_search_def p_def l_def Let_def)
  finally show ?thesis .
qed


text \<open>Five of the six posts match \<^verbatim>\<open>foo\<close>; with limit 2, page 2 is the third and fourth of
  them.\<close>

lemma search_body_page_two:
  "blogs_search (Some ''foo'') (Some 2) (Some 2) (no_state\<lparr>blogs := six_posts, files := fs\<rparr>)
     = Some (Response 200 (BlogsObject
         [(4, \<lparr>blog_title = Some ''food'', blog_content = None, blog_image = Some []\<rparr>),
          (5, \<lparr>blog_title = Some ''tofoo'', blog_content = None, blog_image = Some []\<rparr>)]))"
proof -
  have h1: "list_all (\<lambda>c. \<not> regex_special c) ''foo''" by code_simp
  have h2: "case Some (2::int) of None \<Rightarrow> True | Some p \<Rightarrow> 1 \<le> p" by simp
  have page: "spec_search ''foo'' (Some 2) (Some 2) six_posts
      = [(4, \<lparr>blog_title = Some ''food'', blog_content = None, blog_image = Some []\<rparr>),
         (5, \<lparr>blog_title = Some ''tofoo'', blog_content = None, blog_image = Some []\<rparr>)]"
    by code_simp
  have "blogs (no_state\<lparr>blogs := six_posts, files := fs\<rparr>) = six_posts" by simp
  with search_body_plain_query [OF h1 h2 h2, of "no_state\<lparr>blogs := six_posts, files := fs\<rparr>"] page
  show ?thesis by simp
qed

text \<open>The body reads the query as a regular expression (\<^verbatim>\<open>a.c\<close> finds the title \<^verbatim>\<open>abc\<close>) and
  a limit of 0 as no limit.\<close>

lemma search_body_regex_and_limit_zero:
  "blogs_search (Some ''a.c'') None None (no_state\<lparr>blogs := [abc_post]\<rparr>)
     = Some (Response 200 (BlogsObject [abc_post]))
   \<and> \<not> title_contains ''a.c'' abc_post
   \<and> blogs_search (Some ''b'') (Some 1) (Some 0) (no_state\<lparr>blogs := [abc_post]\<rparr>)
       = Some (Response 200 (BlogsObject [abc_post]))"
proof -
  have "blogs_search (Some ''a.c'') None None (no_state\<lparr>blogs := [abc_post]\<rparr>)
     = Some (Response 200 (BlogsObject [abc_post]))"
    by code_simp
  moreover have "\<not> title_contains ''a.c'' abc_post" by code_simp
  moreover have "blogs_search (Some ''b'') (Some 1) (Some 0) (no_state\<lparr>blogs := [abc_post]\<rparr>)
       = Some (Response 200 (BlogsObject [abc_post]))"
    by code_simp
  ultimately show ?thesis by blast
qed

text \<open>
  Then the server. Whatever the request and the state, \<^verbatim>\<open>part_000\<close> answers a GET request
  with a file or with the 404 of a missing file: the catch-all is registered before the
  API routes, and no GET request reaches the search, the paginated listing or any other
  API handler.
\<close>

lemma part_000_get_file_or_404:
  "(\<exists>file. part_000_get req s = Some (Response 200 (FileBody file)))
   \<or> part_000_get req s = Some (Response 404 ErrorPage)"
  by (simp add: part_000_get_def express_static_def sendFile_def matches_star_def Let_def
      split: option.split)

text \<open>
  C8 asks that the search returns the posts whose title contains the query, paginated,
  so that limit 2 and page 2 over five matching posts gives the third and the fourth. The
  body of the handler computes that, and the server never runs it: the request
  \<^verbatim>\<open>GET /api/blogs/search?searchQuery=foo&limit=2&page=2\<close> is answered with \<^verbatim>\<open>index.html\<close>
  when the front end is built, and with 404 when it is not.
\<close>

theorem search_request_never_searches:
  "part_000_get search_request six_posts_served
     = Some (Response 200 (FileBody ''frontend/dist/index.html''))
   \<and> part_000_get search_request (no_state\<lparr>blogs := six_posts\<rparr>) = Some (Response 404 ErrorPage)
   \<and> blogs_search (query_searchQuery search_request) (query_page search_request)
        (query_limit search_request) six_posts_served
       = Some (Response 200 (BlogsObject
           [(4, \<lparr>blog_title = Some ''food'', blog_content = None, blog_image = Some []\<rparr>),
            (5, \<lparr>blog_title = Some ''tofoo'', blog_content = None, blog_image = Some []\<rparr>)]))"
proof -
  have served: "part_000_get search_request six_posts_served
     = Some (Response 200 (FileBody ''frontend/dist/index.html''))"
    by (simp add: part_000_get_def express_static_def sendFile_def matches_star_def Let_def
        existsSync_def search_request_def six_posts_served_def no_state_def)
  have missing: "part_000_get search_request (no_state\<lparr>blogs := six_posts\<rparr>)
     = Some (Response 404 ErrorPage)"
    by (simp add: part_000_get_def express_static_def sendFile_def matches_star_def Let_def
        existsSync_def search_request_def no_state_def)
  have body: "blogs_search (query_searchQuery search_request) (query_page search_request)
        (query_limit search_request) six_posts_served
       = Some (Response 200 (BlogsObject
           [(4, \<lparr>blog_title = Some ''food'', blog_content = None, blog_image = Some []\<rparr>),
            (5, \<lparr>blog_title = Some ''tofoo'', blog_content = None, blog_image = Some []\<rparr>)]))"
    using search_body_page_two [of "{''frontend/dist/index.html''}"]
    by (simp add: search_request_def six_posts_served_def)
  from served missing body show ?thesis by blast
qed

end
